theory Spec2Isabelle
  imports Main "HOL-Library.AList"
begin

section \<open>JavaScript values\<close>

text \<open>
  The validation engine of \<^verbatim>\<open>swiz/lib/valve.js\<close> works on plain JavaScript data. A value
  is undefined, null, a boolean, a number, a string, an array or an object. An object is
  the list of its own enumerable properties in the order in which they were added (its
  keys are distinct); the order in which \<^verbatim>\<open>for (key in obj)\<close> and \<^verbatim>\<open>Object.keys\<close> visit them
  is computed from that list by \<open>enumOrder\<close> below. The prototype of every object is
  \<^verbatim>\<open>Object.prototype\<close>, of every array \<^verbatim>\<open>Array.prototype\<close>, both as the engine provides
  them. No value is a function, so a property of an object is never callable.

  Numbers are the integers (fractions, NaN and the infinities are not values of the
  model; the one infinity the code itself produces, the default maximum of
  \<^verbatim>\<open>numItems\<close>, has a constructor of its own below). The characters of a string are the
  code units below 256.
\<close>

datatype jsval =
    JUndefined
  | JNull
  | JBool bool
  | JNum int
  | JStr string
  | JArr "jsval list"
  | JObj "(string \<times> jsval) list"

text \<open>What a thrown exception carries: an \<^verbatim>\<open>Error\<close> with its message, or the engine's
  \<^verbatim>\<open>TypeError\<close> (a property read on null or undefined, a call of something that is not
  a function, an object that cannot be converted to a string).\<close>

datatype exn = Error string | TypeError

text \<open>A node-style callback invocation \<^verbatim>\<open>callback(err, result)\<close>. \<^verbatim>\<open>callback(msg)\<close> leaves the
  result undefined; \<^verbatim>\<open>callback(null, v)\<close> has a null error.\<close>

datatype cb = Callback (err: jsval) (res: jsval)

text \<open>
  What a function that is handed a callback does, as its caller sees it. \<open>Calls c\<close>: it
  invokes the callback once, with \<open>c\<close>, and returns. \<open>Throws x\<close>: it throws \<open>x\<close> and has
  not invoked the callback. \<open>CallsThenThrows c x\<close>: it invokes the callback with \<open>c\<close> and,
  after the callback has returned, throws \<open>x\<close> (the loop of \<^verbatim>\<open>async.map\<close> goes on after it
  has reported a failure, and a later element may throw). Nothing in valve.js catches
  an exception of a step or of a callback.
\<close>

datatype 'a run = Calls 'a | Throws exn | CallsThenThrows 'a exn

text \<open>
  \<open>andThen r k\<close>: the function with outcome \<open>r\<close> is called with a callback whose body,
  seen from outside, does \<open>k c\<close> when invoked with \<open>c\<close>. An exception of the body passes
  through the function that invoked the callback, which then does nothing more.
\<close>

definition andThen :: "'a run \<Rightarrow> ('a \<Rightarrow> 'c run) \<Rightarrow> 'c run" where
  "andThen r k =
     (case r of
        Calls c \<Rightarrow> k c
      | Throws x \<Rightarrow> Throws x
      | CallsThenThrows c x \<Rightarrow>
          (case k c of
             Calls c' \<Rightarrow> CallsThenThrows c' x
           | Throws y \<Rightarrow> Throws y
           | CallsThenThrows c' y \<Rightarrow> CallsThenThrows c' y))"


text \<open>\<^verbatim>\<open>if (x)\<close>: undefined, null, false, 0 and the empty string are falsy.\<close>

fun truthy :: "jsval \<Rightarrow> bool" where
  "truthy JUndefined = False"
| "truthy JNull = False"
| "truthy (JBool b) = b"
| "truthy (JNum n) = (n \<noteq> 0)"
| "truthy (JStr s) = (s \<noteq> [])"
| "truthy (JArr xs) = True"
| "truthy (JObj kvs) = True"

text \<open>\<^verbatim>\<open>typeOf\<close> of util.js: \<^verbatim>\<open>typeof\<close>, except that it tells arrays and null from
  objects.\<close>

fun typeOf :: "jsval \<Rightarrow> string" where
  "typeOf JUndefined = ''undefined''"
| "typeOf JNull = ''null''"
| "typeOf (JBool b) = ''boolean''"
| "typeOf (JNum n) = ''number''"
| "typeOf (JStr s) = ''string''"
| "typeOf (JArr xs) = ''array''"
| "typeOf (JObj kvs) = ''object''"

subsection \<open>Numbers and values as strings\<close>

text \<open>
  JavaScript prints an integer of magnitude below \<open>10\<^sup>2\<^sup>1\<close> in decimal, and every integer
  of magnitude below \<open>2\<^sup>5\<^sup>3\<close> is a number. \<open>showInt\<close> is the string form of these, the
  safe integers; the string form of a larger number (an exponent form from \<open>10\<^sup>2\<^sup>1\<close> on)
  is not modelled, and the statements below that depend on the string form of a number
  are about safe integers.
\<close>

definition safeInteger :: "int \<Rightarrow> bool" where
  "safeInteger n = (\<bar>n\<bar> < 9007199254740992)"

definition digitChar :: "nat \<Rightarrow> char" where
  "digitChar n = ''0123456789'' ! n"

function showNat :: "nat \<Rightarrow> string" where
  "showNat n = (if n < 10 then [digitChar n] else showNat (n div 10) @ [digitChar (n mod 10)])"
  by pat_completeness auto
termination
  by (relation "measure id") auto

declare showNat.simps [simp del]

definition showInt :: "int \<Rightarrow> string" where
  "showInt i = (if i < 0 then CHR ''-'' # showNat (nat (- i)) else showNat (nat i))"

text \<open>\<^verbatim>\<open>Array.prototype.join\<close> on strings.\<close>

fun join :: "string \<Rightarrow> string list \<Rightarrow> string" where
  "join sep [] = []"
| "join sep [x] = x"
| "join sep (x # y # ys) = x @ sep @ join sep (y # ys)"

text \<open>
  The string form of a value: \<^verbatim>\<open>value.toString()\<close> on a value that is neither null nor
  undefined, \<^verbatim>\<open>'' + value\<close>, a value used as a property name. An array joins the string
  forms of its elements with commas, null and undefined elements as the empty string.
  An object is \<^verbatim>\<open>[object Object]\<close> by the \<^verbatim>\<open>toString\<close> it inherits; when it has a property
  \<^verbatim>\<open>toString\<close> of its own, which is not a function, the conversion throws a \<^verbatim>\<open>TypeError\<close>
  (\<open>None\<close>), also from inside an array.
\<close>

fun toString :: "jsval \<Rightarrow> string option" where
  "toString JUndefined = Some ''undefined''"
| "toString JNull = Some ''null''"
| "toString (JBool b) = Some (if b then ''true'' else ''false'')"
| "toString (JNum n) = Some (showInt n)"
| "toString (JStr s) = Some s"
| "toString (JArr xs) =
     (let ss = map (\<lambda>x. if x = JNull \<or> x = JUndefined then Some [] else toString x) xs
      in if None \<in> set ss then None else Some (join '','' (map the ss)))"
| "toString (JObj kvs) =
     (if ''toString'' \<in> fst ` set kvs then None else Some ''[object Object]'')"

text \<open>Plain data whose numbers are safe integers and whose objects have distinct keys.\<close>

fun plain :: "jsval \<Rightarrow> bool" where
  "plain (JNum n) = safeInteger n"
| "plain (JArr xs) = (\<forall>x \<in> set xs. plain x)"
| "plain (JObj kvs) = (distinct (map fst kvs) \<and> (\<forall>x \<in> snd ` set kvs. plain x))"
| "plain v = True"

subsection \<open>Own properties\<close>

text \<open>The own properties of a value: an object's bindings; for an array and a string the
  indices and \<^verbatim>\<open>length\<close>; none for a number or a boolean. Reading a property of null or
  undefined throws (\<open>None\<close>).\<close>

fun ownProperties :: "jsval \<Rightarrow> (string \<times> jsval) list option" where
  "ownProperties JUndefined = None"
| "ownProperties JNull = None"
| "ownProperties (JBool b) = Some []"
| "ownProperties (JNum n) = Some []"
| "ownProperties (JStr s) =
     Some (zip (map showNat [0..<length s]) (map (\<lambda>c. JStr [c]) s)
           @ [(''length'', JNum (int (length s)))])"
| "ownProperties (JArr xs) =
     Some (zip (map showNat [0..<length xs]) xs @ [(''length'', JNum (int (length xs)))])"
| "ownProperties (JObj kvs) = Some kvs"

text \<open>The value a property list binds to a key, undefined when it binds none.\<close>

definition lookup :: "(string \<times> jsval) list \<Rightarrow> string \<Rightarrow> jsval" where
  "lookup kvs k = (case map_of kvs k of None \<Rightarrow> JUndefined | Some v \<Rightarrow> v)"

text \<open>
  \<^verbatim>\<open>v.hasOwnProperty(k)\<close>, a method call on the value itself. The method is found on
  \<^verbatim>\<open>Object.prototype\<close>, unless the value has a property \<^verbatim>\<open>hasOwnProperty\<close> of its own:
  that one is found instead, it is not a function, and the call throws a \<^verbatim>\<open>TypeError\<close>.
  So does the call on null or undefined.
\<close>

definition hasOwnProperty :: "jsval \<Rightarrow> string \<Rightarrow> bool option" where
  "hasOwnProperty v k =
     (case ownProperties v of
        None \<Rightarrow> None
      | Some ps \<Rightarrow>
          if ''hasOwnProperty'' \<in> fst ` set ps then None else Some (k \<in> fst ` set ps))"

text \<open>\<^verbatim>\<open>v[k]\<close> where \<open>v\<close> has the property \<open>k\<close> of its own.\<close>

definition own :: "jsval \<Rightarrow> string \<Rightarrow> jsval" where
  "own v k = (case ownProperties v of None \<Rightarrow> JUndefined | Some ps \<Rightarrow> lookup ps k)"

text \<open>
  \<^verbatim>\<open>v[k] === null\<close>. The read throws on null and undefined. A property that is not the
  value's own is undefined or found on a prototype, where it is a built-in function (or,
  for \<^verbatim>\<open>__proto__\<close>, the prototype itself): never null.
\<close>

definition readsNull :: "jsval \<Rightarrow> string \<Rightarrow> bool option" where
  "readsNull v k = map_option (\<lambda>ps. map_of ps k = Some JNull) (ownProperties v)"

subsection \<open>The order of the keys\<close>

text \<open>
  \<^verbatim>\<open>for (key in obj)\<close> and \<^verbatim>\<open>Object.keys(obj)\<close> visit the keys that are array indices (the
  decimal form of an integer from 0 to \<open>2\<^sup>3\<^sup>2 - 2\<close>) first, in ascending order, then the
  other keys in the order in which they were added.
\<close>

definition isDigit :: "char \<Rightarrow> bool" where
  "isDigit ch = (ch \<in> set ''0123456789'')"

definition parseNat :: "string \<Rightarrow> nat" where
  "parseNat s = foldl (\<lambda>n ch. 10 * n + (of_char ch - 48)) 0 s"

definition arrayIndex :: "string \<Rightarrow> nat option" where
  "arrayIndex s =
     (if s \<noteq> [] \<and> list_all isDigit s \<and> (s = ''0'' \<or> hd s \<noteq> CHR ''0'')
         \<and> parseNat s < 4294967295
      then Some (parseNat s) else None)"

definition enumOrder :: "(string \<times> 'a) list \<Rightarrow> (string \<times> 'a) list" where
  "enumOrder kvs =
     sort_key (\<lambda>kv. the (arrayIndex (fst kv))) (filter (\<lambda>kv. arrayIndex (fst kv) \<noteq> None) kvs)
     @ filter (\<lambda>kv. arrayIndex (fst kv) = None) kvs"

text \<open>The keys a \<^verbatim>\<open>for (key in v)\<close> loop visits: the enumerable ones, so not \<^verbatim>\<open>length\<close>;
  the loop over null or undefined has no iteration.\<close>

fun forInKeys :: "jsval \<Rightarrow> string list" where
  "forInKeys (JObj kvs) = map fst (enumOrder kvs)"
| "forInKeys (JArr xs) = map showNat [0..<length xs]"
| "forInKeys (JStr s) = map showNat [0..<length s]"
| "forInKeys v = []"

text \<open>
  \<^verbatim>\<open>obj[k] = v\<close> on an object: the binding is replaced where the key is bound, and added
  at the end where it is not. On an object without a property \<^verbatim>\<open>__proto__\<close> of its own
  the assignment to \<^verbatim>\<open>__proto__\<close> adds none: it goes to the setter of \<^verbatim>\<open>Object.prototype\<close>
  (which makes an object or null the prototype of \<open>obj\<close>; the objects this happens to are
  the ones valve.js builds and hands to its caller, and it reads none of them).
\<close>

definition assignKey :: "string \<Rightarrow> 'a \<Rightarrow> (string \<times> 'a) list \<Rightarrow> (string \<times> 'a) list" where
  "assignKey k v kvs =
     (if k = ''__proto__'' \<and> k \<notin> fst ` set kvs then kvs else AList.update k v kvs)"

fun setProp :: "jsval \<Rightarrow> string \<Rightarrow> jsval \<Rightarrow> jsval" where
  "setProp (JObj kvs) k v = JObj (assignKey k v kvs)"
| "setProp ob k v = ob"

section \<open>The async library\<close>

text \<open>
  \<^verbatim>\<open>async.reduce\<close> and \<^verbatim>\<open>async.map\<close> belong to the async package, which the repository
  requires but does not contain. Every iterator here calls its callback before it
  returns, so both visit the list from left to right.

  \<^verbatim>\<open>reduce\<close> calls the iterator for the next element from inside the callback of the one
  before: it threads the memo and stops at the first truthy error, handing over that
  error and the value that came with it. A run without error ends with a null error.

  \<^verbatim>\<open>map\<close> calls the iterator for every element in a loop, storing each result at its
  index. At the first truthy error it calls the final callback with the error and the
  array of results as it is then (the results before, and what came with the error); the
  loop goes on, but the final callback is not called again. When every element has
  answered without error it calls the final callback with the results. An exception of
  an iterator ends the loop.
\<close>

fun async_reduce :: "'x list \<Rightarrow> jsval \<Rightarrow> (jsval \<Rightarrow> 'x \<Rightarrow> cb run) \<Rightarrow> cb run" where
  "async_reduce [] memo iterator = Calls (Callback JNull memo)"
| "async_reduce (x # xs) memo iterator =
     andThen (iterator memo x)
       (\<lambda>c. if truthy (err c) then Calls c else async_reduce xs (res c) iterator)"



section \<open>Chains\<close>

text \<open>
  The size constraint a chain stores in \<^verbatim>\<open>_numItemsValidator\<close>: the minimum, and the
  maximum, which is \<^verbatim>\<open>Infinity\<close> when \<^verbatim>\<open>numItems\<close> got no (or a falsy) maximum.
\<close>

datatype jsmax = Finite int | Infinity

record numItemsValidator =
  minItems :: int
  maxItems :: jsmax

text \<open>
  The elements of the array \<^verbatim>\<open>validators\<close> of a chain are objects. \<open>Step\<close> is an object
  \<^verbatim>\<open>{name, func, help}\<close> that a method of the chain writes as a literal, made for this one
  place in this one chain, with the position \<^verbatim>\<open>pos\<close> that \<^verbatim>\<open>_pushValidator\<close> or
  \<^verbatim>\<open>_unshiftValidator\<close> has written into it. \<open>Custom\<close> is an object \<^verbatim>\<open>{func, help}\<close> of the
  registry of custom validators, known by its address there: the same object is in
  every chain (and at every place in a chain) that \<^verbatim>\<open>custom\<close> has added it to, so its
  \<^verbatim>\<open>pos\<close> is kept in the registry, not here; it has no name. The help text takes no part in
  validation and is left out.

  The functions of \<^verbatim>\<open>isArray\<close> and \<^verbatim>\<open>isHash\<close> read \<^verbatim>\<open>self._numItemsValidator\<close> of the chain
  they were added to when they run, so the function of a step takes that field of its
  owning chain as its first argument, then the value and the baton.
\<close>

datatype 'b step =
    Step (name: "string option") (pos: nat)
      (func: "numItemsValidator option \<Rightarrow> jsval \<Rightarrow> 'b \<Rightarrow> cb run")
  | Custom (address: nat) (registered: "jsval \<Rightarrow> 'b \<Rightarrow> cb run")
where
  "name (Custom a f) = None"
| "func (Custom a f) = (\<lambda>self. f)"

record 'b chain =
  validators :: "'b step list"
  target :: "string option"
  isOptional :: bool
  isImmutable :: bool
  isUpdateRequired :: bool
  validatorCount :: nat
  numItemsValidator :: "numItemsValidator option"

definition new_Chain :: "'b chain" where
  "new_Chain = \<lparr>validators = [], target = None, isOptional = False, isImmutable = False,
                isUpdateRequired = False, validatorCount = 0, numItemsValidator = None\<rparr>"

text \<open>A step as the object literal writes it, before a position is assigned.\<close>

definition step ::
  "string \<Rightarrow> (numItemsValidator option \<Rightarrow> jsval \<Rightarrow> 'b \<Rightarrow> cb run) \<Rightarrow> 'b step" where
  "step n f = Step (Some n) 0 f"

text \<open>\<^verbatim>\<open>getValidatorPos(name)\<close> for a name that is a string: an object of the registry has
  no name and is passed over.\<close>

definition getValidatorPos :: "'b chain \<Rightarrow> string \<Rightarrow> int" where
  "getValidatorPos c n =
     (case find (\<lambda>v. name v = Some n) (validators c) of
        Some (Step m p f) \<Rightarrow> int p
      | _ \<Rightarrow> - 1)"

definition hasValidator :: "'b chain \<Rightarrow> string \<Rightarrow> bool" where
  "hasValidator c n = (getValidatorPos c n \<ge> 0)"

text \<open>\<^verbatim>\<open>validator.pos = this._validatorCount\<close> on an object literal; for an object of the
  registry this assignment is part of \<open>custom\<close> below.\<close>

fun setPos :: "'b step \<Rightarrow> nat \<Rightarrow> 'b step" where
  "setPos (Step n p f) q = Step n q f"
| "setPos (Custom a f) q = Custom a f"

definition pushValidator :: "'b chain \<Rightarrow> 'b step \<Rightarrow> 'b chain" where
  "pushValidator c v =
     c\<lparr>validators := validators c @ [setPos v (validatorCount c)],
       validatorCount := Suc (validatorCount c)\<rparr>"

definition unshiftValidator :: "'b chain \<Rightarrow> 'b step \<Rightarrow> 'b chain" where
  "unshiftValidator c v =
     c\<lparr>validators := setPos v (validatorCount c) # validators c,
       validatorCount := Suc (validatorCount c)\<rparr>"

subsection \<open>Running a chain\<close>

text \<open>\<^verbatim>\<open>err.hasOwnProperty(message) ? err.message : err\<close> where the variable
  \<^verbatim>\<open>message\<close> is still undefined: the property asked for is the one named
  \<^verbatim>\<open>undefined\<close>. The error is truthy where this runs. The call throws on an error
  object that has a property \<^verbatim>\<open>hasOwnProperty\<close> of its own (\<open>None\<close>). No prototype has a
  property \<^verbatim>\<open>message\<close>.\<close>

definition errMessage :: "jsval \<Rightarrow> jsval option" where
  "errMessage e =
     (case hasOwnProperty e ''undefined'' of
        None \<Rightarrow> None
      | Some True \<Rightarrow> Some (own e ''message'')
      | Some False \<Rightarrow> Some e)"

definition reduceStep :: "numItemsValidator option \<Rightarrow> 'b \<Rightarrow> jsval
    \<Rightarrow> (numItemsValidator option \<Rightarrow> jsval \<Rightarrow> 'b \<Rightarrow> cb run) \<Rightarrow> cb run" where
  "reduceStep self baton memo validator =
     andThen (validator self memo baton)
       (\<lambda>c. if truthy (err c)
            then (case errMessage (err c) of
                    None \<Rightarrow> Throws TypeError
                  | Some message \<Rightarrow> Calls (Callback message JUndefined))
            else Calls (Callback JNull (res c)))"

definition checkChain :: "jsval \<Rightarrow> 'b chain \<Rightarrow> 'b \<Rightarrow> cb run" where
  "checkChain v c baton =
     async_reduce (map func (validators c)) v (reduceStep (numItemsValidator c) baton)"

subsection \<open>Steps\<close>

text \<open>\<^verbatim>\<open>callback(null, value)\<close> and \<^verbatim>\<open>callback(message)\<close>.\<close>

definition pass :: "jsval \<Rightarrow> cb run" where
  "pass v = Calls (Callback JNull v)"

definition reject :: "string \<Rightarrow> cb run" where
  "reject m = Calls (Callback (JStr m) JUndefined)"



text \<open>ASCII lower case, for the \<^verbatim>\<open>i\<close> flag of the two patterns of \<^verbatim>\<open>isBoolean\<close>. Without
  the \<^verbatim>\<open>u\<close> flag no character outside ASCII is folded onto an ASCII letter.\<close>

definition lowerChar :: "char \<Rightarrow> char" where
  "lowerChar ch =
     (case map_of (zip ''ABCDEFGHIJKLMNOPQRSTUVWXYZ'' ''abcdefghijklmnopqrstuvwxyz'') ch of
        None \<Rightarrow> ch
      | Some l \<Rightarrow> l)"

text \<open>\<^verbatim>\<open>/^0$|^false$/i\<close> and \<^verbatim>\<open>/^1$|^true$/i\<close>: both alternatives are anchored at both
  ends, so the whole string is \<^verbatim>\<open>0\<close>, or \<^verbatim>\<open>false\<close> in any letter case.\<close>

definition matchesFalse :: "string \<Rightarrow> bool" where
  "matchesFalse s = (s = ''0'' \<or> map lowerChar s = ''false'')"

definition matchesTrue :: "string \<Rightarrow> bool" where
  "matchesTrue s = (s = ''1'' \<or> map lowerChar s = ''true'')"

text \<open>The step of \<^verbatim>\<open>isBoolean\<close>. \<^verbatim>\<open>value.toString()\<close> stands outside any \<^verbatim>\<open>try\<close>.\<close>

definition isBoolean_func :: "numItemsValidator option \<Rightarrow> jsval \<Rightarrow> 'b \<Rightarrow> cb run" where
  "isBoolean_func self v baton =
     (if v = JNull \<or> v = JUndefined then reject ''Not a boolean''
      else (case toString v of
              None \<Rightarrow> Throws TypeError
            | Some s \<Rightarrow>
                if matchesFalse s then pass (JBool False)
                else if matchesTrue s then pass (JBool True)
                else reject ''Not a boolean''))"

definition isBoolean :: "'b chain \<Rightarrow> 'b chain" where
  "isBoolean c = pushValidator c (step ''isBoolean'' isBoolean_func)"










definition immutable :: "'b chain \<Rightarrow> 'b chain" where
  "immutable c =
     unshiftValidator (c\<lparr>isImmutable := True\<rparr>) (step ''immutable'' (\<lambda>self v baton. pass v))"


definition rename :: "'b chain \<Rightarrow> string \<Rightarrow> 'b chain" where
  "rename c t = c\<lparr>target := Some t\<rparr>"



fun showMax :: "jsmax \<Rightarrow> string" where
  "showMax (Finite n) = showInt n"
| "showMax Infinity = ''Infinity''"

fun exceeds :: "int \<Rightarrow> jsmax \<Rightarrow> bool" where
  "exceeds n (Finite m) = (n > m)"
| "exceeds n Infinity = False"

text \<open>\<^verbatim>\<open>numItems\<close> of validators.js. \<open>Inl m\<close> is \<^verbatim>\<open>throw new Error(m)\<close>.\<close>

definition validators_numItems :: "jsval \<Rightarrow> int \<Rightarrow> jsmax \<Rightarrow> string + jsval" where
  "validators_numItems v mn mx =
     (case (case v of JArr xs \<Rightarrow> Some (length xs)
                    | JObj kvs \<Rightarrow> Some (length kvs)
                    | _ \<Rightarrow> None) of
        None \<Rightarrow> Inl ''value must either be a array or an object''
      | Some len \<Rightarrow>
          if int len < mn \<or> exceeds (int len) mx
          then Inl (''Object needs to have between '' @ showInt mn @ '' and '' @ showMax mx
                    @ '' items'')
          else Inr v)"

definition validateNumItems :: "numItemsValidator option \<Rightarrow> jsval \<Rightarrow> string + jsval" where
  "validateNumItems self v =
     (case self of
        None \<Rightarrow> Inr JUndefined
      | Some ni \<Rightarrow> validators_numItems v (minItems ni) (maxItems ni))"


fun properties :: "jsval \<Rightarrow> (string \<times> jsval) list" where
  "properties (JObj kvs) = kvs"
| "properties v = []"



text \<open>
  The iterator of \<^verbatim>\<open>isHash\<close>: both the key and the value of a pair go through their
  chains; the cleaned pair is written into the memo object. The messages are built by
  string concatenation with the error, and the cleaned key is used as a property name:
  both throw on an object that has no string form.
\<close>

definition iter ::
  "'b chain \<Rightarrow> 'b chain \<Rightarrow> 'b \<Rightarrow> jsval \<Rightarrow> string \<times> jsval \<Rightarrow> cb run" where
  "iter keyChain valueChain baton memo item =
     (case item of (k, v) \<Rightarrow>
        andThen (checkChain (JStr k) keyChain baton)
          (\<lambda>c. if truthy (err c)
               then (case toString (err c) of
                       None \<Rightarrow> Throws TypeError
                     | Some e \<Rightarrow> reject (''Key '' @ k @ '': '' @ e))
               else andThen (checkChain v valueChain baton)
                      (\<lambda>c'. if truthy (err c')
                            then (case toString (err c') of
                                    None \<Rightarrow> Throws TypeError
                                  | Some e \<Rightarrow>
                                      reject (''Value for key '' @ [CHR 0x27] @ k @ [CHR 0x27]
                                              @ '': '' @ e))
                            else (case toString (res c) of
                                    None \<Rightarrow> Throws TypeError
                                  | Some cleanedKey \<Rightarrow>
                                      pass (setProp memo cleanedKey (res c'))))))"

text \<open>
  The step of \<^verbatim>\<open>isHash\<close>. The pairs are collected by a \<^verbatim>\<open>for (key in value)\<close> loop that
  asks \<^verbatim>\<open>value.hasOwnProperty(key)\<close> for every key: on a hash that has a key
  \<^verbatim>\<open>hasOwnProperty\<close> the first question throws.
\<close>

definition isHash_func ::
  "'b chain \<Rightarrow> 'b chain \<Rightarrow> numItemsValidator option \<Rightarrow> jsval \<Rightarrow> 'b \<Rightarrow> cb run" where
  "isHash_func keyChain valueChain self v baton =
     (if typeOf v \<noteq> ''object'' then reject ''Not a hash''
      else (case validateNumItems self v of
              Inl m \<Rightarrow> reject m
            | Inr _ \<Rightarrow>
                if forInKeys v \<noteq> [] \<and> hasOwnProperty v (hd (forInKeys v)) = None
                then Throws TypeError
                else async_reduce (enumOrder (properties v)) (JObj [])
                       (iter keyChain valueChain baton)))"

definition isHash :: "'b chain \<Rightarrow> 'b chain \<Rightarrow> 'b chain \<Rightarrow> 'b chain" where
  "isHash c keyChain valueChain =
     pushValidator c (step ''isHash'' (isHash_func keyChain valueChain))"

text \<open>The step of \<^verbatim>\<open>enumerated(map)\<close>: \<^verbatim>\<open>map.hasOwnProperty(value)\<close> with the value as the
  property name, then \<^verbatim>\<open>map[value]\<close> or a message that lists \<^verbatim>\<open>Object.keys(map)\<close>.\<close>

definition enumerated_func ::
  "(string \<times> jsval) list \<Rightarrow> numItemsValidator option \<Rightarrow> jsval \<Rightarrow> 'b \<Rightarrow> cb run" where
  "enumerated_func m self v baton =
     (case toString v of
        None \<Rightarrow> Throws TypeError
      | Some s \<Rightarrow>
          (case hasOwnProperty (JObj m) s of
             None \<Rightarrow> Throws TypeError
           | Some True \<Rightarrow> pass (lookup m s)
           | Some False \<Rightarrow>
               reject (''Invalid value '' @ [CHR 0x27] @ s @ [CHR 0x27]
                       @ ''. Should be one of ('' @ join '', '' (map fst (enumOrder m))
                       @ '').'')))"

definition enumerated :: "'b chain \<Rightarrow> (string \<times> jsval) list \<Rightarrow> 'b chain" where
  "enumerated c m = pushValidator c (step ''enumerated'' (enumerated_func m))"

subsection \<open>Custom validators\<close>

text \<open>
  The registry \<^verbatim>\<open>customValidators\<close> is an object that binds a name to the object
  \<^verbatim>\<open>{func, help}\<close> that \<^verbatim>\<open>addChainValidator\<close> made for it. The model keeps every object
  ever made, in the order of the calls; the address of an object is its index in this
  list, and the object the registry binds to a name is the last one made for that name
  (\<open>bound\<close>). The assignment to the name \<^verbatim>\<open>__proto__\<close> binds nothing, as in \<open>assignKey\<close>.
  \<^verbatim>\<open>_pushValidator\<close> writes the position into the object it is given, so the \<^verbatim>\<open>pos\<close> of an
  object of the registry is the one of its latest use in any chain (\<open>rpos\<close>; none before
  its first use). \<^verbatim>\<open>addChainValidator\<close> throws unless it is given a function (\<open>None\<close>: the
  argument is not one).
\<close>

record 'b registered =
  rname :: string
  rfunc :: "jsval \<Rightarrow> 'b \<Rightarrow> cb run"
  rpos :: "nat option"

type_synonym 'b registry = "'b registered list"





text \<open>The \<^verbatim>\<open>pos\<close> of an element of \<^verbatim>\<open>validators\<close>, and \<^verbatim>\<open>getValidatorAtPos\<close>, which
  compares it for every element.\<close>

fun posOf :: "'b registry \<Rightarrow> 'b step \<Rightarrow> nat option" where
  "posOf reg (Step n p f) = Some p"
| "posOf reg (Custom a f) = (if a < length reg then rpos (reg ! a) else None)"

definition getValidatorAtPos :: "'b registry \<Rightarrow> 'b chain \<Rightarrow> nat \<Rightarrow> 'b step option" where
  "getValidatorAtPos reg c p = find (\<lambda>v. posOf reg v = Some p) (validators c)"

section \<open>Schemas and the Valve\<close>

text \<open>
  A schema is an object whose values are chains or nested schemas.
\<close>

datatype 'b schema_entry = SChain "'b chain" | SSub "(string \<times> 'b schema_entry) list"

type_synonym 'b schema = "(string \<times> 'b schema_entry) list"

text \<open>
  The code reads \<^verbatim>\<open>chain.isOptional\<close>, \<^verbatim>\<open>chain.isUpdateRequired\<close>, \<^verbatim>\<open>chain.isImmutable\<close>
  and \<^verbatim>\<open>chain.target\<close> of a schema value before it knows whether that value is a chain.
  On a nested schema such a read finds the field of that name, if the nested schema has
  one: an object, which is truthy.
\<close>

fun entryIsOptional :: "'b schema_entry \<Rightarrow> bool" where
  "entryIsOptional (SChain c) = isOptional c"
| "entryIsOptional (SSub s) = (''isOptional'' \<in> fst ` set s)"

fun entryIsUpdateRequired :: "'b schema_entry \<Rightarrow> bool" where
  "entryIsUpdateRequired (SChain c) = isUpdateRequired c"
| "entryIsUpdateRequired (SSub s) = (''isUpdateRequired'' \<in> fst ` set s)"

fun entryIsImmutable :: "'b schema_entry \<Rightarrow> bool" where
  "entryIsImmutable (SChain c) = isImmutable c"
| "entryIsImmutable (SSub s) = (''isImmutable'' \<in> fst ` set s)"

text \<open>The error record \<^verbatim>\<open>{key: key, parentKeys: parentKeys, message: message}\<close>.\<close>

definition errorRecord :: "string \<Rightarrow> string list \<Rightarrow> jsval \<Rightarrow> jsval" where
  "errorRecord k pk m =
     JObj [(''key'', JStr k), (''parentKeys'', JArr (map JStr pk)), (''message'', m)]"

text \<open>
  \<^verbatim>\<open>checkSchema\<close> reduces over \<^verbatim>\<open>Object.keys(schema)\<close> with an empty object as memo;
  \<open>checkKeys\<close> is that reduction over the keys still to visit and \<open>checkField\<close> the
  iterator it hands to \<^verbatim>\<open>async.reduce\<close>. The array \<^verbatim>\<open>parentKeys\<close> is shared by all levels
  and only ever pushed to, so it is passed along and handed back with the callback.
  \<^verbatim>\<open>chain.target !== null\<close> also holds for an empty rename target.
\<close>

function checkSchema ::
  "jsval \<Rightarrow> 'b schema \<Rightarrow> string list \<Rightarrow> bool \<Rightarrow> 'b \<Rightarrow> (cb \<times> string list) run"
and checkKeys ::
  "jsval \<Rightarrow> 'b schema \<Rightarrow> string list \<Rightarrow> bool \<Rightarrow> 'b \<Rightarrow> jsval \<Rightarrow> (cb \<times> string list) run"
and checkField ::
  "jsval \<Rightarrow> string \<Rightarrow> 'b schema_entry \<Rightarrow> string list \<Rightarrow> bool \<Rightarrow> 'b \<Rightarrow> jsval
     \<Rightarrow> (cb \<times> string list) run"
where
  "checkSchema obj s parentKeys isPartial baton =
     checkKeys obj (enumOrder s) parentKeys isPartial baton (JObj [])"
| "checkKeys obj [] parentKeys isPartial baton cleanedObj =
     Calls (Callback JNull cleanedObj, parentKeys)"
| "checkKeys obj ((k, entry) # rest) parentKeys isPartial baton cleanedObj =
     andThen (checkField obj k entry parentKeys isPartial baton cleanedObj)
       (\<lambda>r. if truthy (err (fst r)) then Calls r
            else checkKeys obj rest (snd r) isPartial baton (res (fst r)))"
| "checkField obj k entry parentKeys isPartial baton cleanedObj =
     (case (if entryIsOptional entry then readsNull obj k else Some False) of
        None \<Rightarrow> Throws TypeError
      | Some True \<Rightarrow> Calls (Callback JNull (setProp cleanedObj k JNull), parentKeys)
      | Some False \<Rightarrow>
          (case hasOwnProperty obj k of
             None \<Rightarrow> Throws TypeError
           | Some True \<Rightarrow>
               (case entry of
                  SChain c \<Rightarrow>
                    andThen (checkChain (own obj k) c baton)
                      (\<lambda>r. if truthy (err r)
                           then (case errMessage (err r) of
                                   None \<Rightarrow> Throws TypeError
                                 | Some message \<Rightarrow>
                                     Calls (Callback (errorRecord k parentKeys message)
                                              JUndefined, parentKeys))
                           else Calls (Callback (err r)
                                         (setProp cleanedObj
                                            (case target c of None \<Rightarrow> k | Some t \<Rightarrow> t)
                                            (res r)), parentKeys))
                | SSub s \<Rightarrow>
                    andThen (checkSchema (own obj k) s (parentKeys @ [k]) isPartial baton)
                      (\<lambda>r. if truthy (err (fst r))
                           then Calls (Callback (err (fst r)) JUndefined, snd r)
                           else Calls (Callback JNull (setProp cleanedObj k (res (fst r))),
                                       snd r)))
           | Some False \<Rightarrow>
               if (isPartial \<and> \<not> entryIsUpdateRequired entry) \<or> entryIsOptional entry
               then Calls (Callback JNull cleanedObj, parentKeys)
               else Calls (Callback
                             (errorRecord k parentKeys
                                (JStr (''Missing required key ('' @ k @ '')'')))
                             JUndefined, parentKeys)))"
  by pat_completeness auto
termination
proof -
  let ?L = "size_list (size_prod (\<lambda>x. 0) size) :: 'b schema \<Rightarrow> nat"
  have ins: "?L (insort_key f x xs) = ?L (x # xs)" for f :: "string \<times> 'b schema_entry \<Rightarrow> nat"
      and x xs
    by (induction xs) auto
  have srt: "?L (sort_key f xs) = ?L xs" for f :: "string \<times> 'b schema_entry \<Rightarrow> nat" and xs
    by (induction xs) (auto simp: ins)
  have flt: "?L (filter P xs) + ?L (filter (\<lambda>x. \<not> P x) xs) = ?L xs"
    for P :: "string \<times> 'b schema_entry \<Rightarrow> bool" and xs
    by (induction xs) auto
  have enum: "?L (enumOrder s) = ?L s" for s :: "'b schema"
    using flt [of "\<lambda>kv. arrayIndex (fst kv) \<noteq> None" s]
    by (simp add: enumOrder_def srt)
  show ?thesis
    by (relation "measure (\<lambda>x. case x of
            Inl (obj, s, pk, p, b) \<Rightarrow> 3 * ?L s + 2
          | Inr (Inl (obj, s, pk, p, b, c)) \<Rightarrow> 3 * ?L s + 1
          | Inr (Inr (obj, k, entry, pk, p, b, c)) \<Rightarrow> 3 * size entry)")
       (auto simp: enum)
qed

text \<open>
  What the Valve hands to a final validator and to its own callback as the cleaned
  object: the object \<^verbatim>\<open>checkSchema\<close> has built, or the object \<^verbatim>\<open>checkUpdate\<close> has merged
  (below).
\<close>

datatype composite = Arr "jsval list" | Obj "(string \<times> jsval) list"

text \<open>
  What a property of the two objects given to \<^verbatim>\<open>checkUpdate\<close> holds, and what a read of
  one of them finds. \<open>Prim v\<close>: a primitive value, or an array or object that nothing else
  refers to. \<open>Ref a x\<close>: the array or object at address \<open>a\<close>, which is the same object
  wherever this address stands. \<open>Builtin n\<close>: the property \<open>n\<close> of \<^verbatim>\<open>Object.prototype\<close> (a
  function of the engine, or the prototype itself for \<^verbatim>\<open>__proto__\<close>), which a read finds
  when the object has no property of that name of its own.
\<close>

datatype slot = Prim jsval | Ref nat composite | Builtin string

datatype cobj = Cleaned jsval | Merged "(string \<times> slot) list"

datatype vcb = VCallback (verr: jsval) (vres: cobj)

text \<open>
  What a final validator hands to the callback it is given: an error and a value, which
  the Valve passes on as they are, unless the error is an instance of \<^verbatim>\<open>Error\<close> (not a
  value of the model), for which the Valve throws from inside that callback.
\<close>

datatype fvarg = FvErrorInstance | FvCallback jsval cobj

record 'b valve =
  schema :: "'b schema option"
  baton :: 'b
  finalValidator :: "(cobj \<Rightarrow> fvarg run) option"


definition addFinalValidator ::
  "'b valve \<Rightarrow> (cobj \<Rightarrow> fvarg run) option \<Rightarrow> exn + 'b valve" where
  "addFinalValidator v f =
     (case f of
        None \<Rightarrow> Inl (Error ''No validator function specified'')
      | Some g \<Rightarrow> Inr (v\<lparr>finalValidator := Some g\<rparr>))"

definition runFinal :: "(cobj \<Rightarrow> fvarg run) \<Rightarrow> cobj \<Rightarrow> vcb run" where
  "runFinal f cl =
     andThen (f cl)
       (\<lambda>a. case a of
               FvErrorInstance \<Rightarrow> Throws (Error ''err argument must be a swiz error object'')
             | FvCallback e finalCleaned \<Rightarrow> Calls (VCallback e finalCleaned))"




definition checkPartial :: "'b valve \<Rightarrow> jsval \<Rightarrow> vcb run" where
  "checkPartial v obj =
     (case schema v of
        None \<Rightarrow> Calls (VCallback (JStr ''no schema specified'') (Cleaned JUndefined))
      | Some s \<Rightarrow>
          andThen (checkSchema obj s [] True (baton v))
            (\<lambda>r. Calls (VCallback (err (fst r)) (Cleaned (res (fst r))))))"

subsection \<open>checkUpdate\<close>

text \<open>
  \<^verbatim>\<open>checkUpdate\<close> is given two objects, the existing object and the partial update. It
  compares what they hold with \<^verbatim>\<open>!==\<close>: primitive values are strictly equal when they
  are the same value, arrays and objects when they are the same object.
\<close>

fun primitive :: "jsval \<Rightarrow> bool" where
  "primitive (JArr xs) = False"
| "primitive (JObj kvs) = False"
| "primitive v = True"

fun strictEq :: "slot \<Rightarrow> slot \<Rightarrow> bool" where
  "strictEq (Prim v) (Prim w) = (primitive v \<and> v = w)"
| "strictEq (Ref a x) (Ref b y) = (a = b)"
| "strictEq (Builtin m) (Builtin n) = (m = n)"
| "strictEq x y = False"

text \<open>The properties of \<^verbatim>\<open>Object.prototype\<close>, and the plain read \<^verbatim>\<open>obj[k]\<close> of an object.\<close>

definition objectPrototype :: "string list" where
  "objectPrototype =
     [''constructor'', ''hasOwnProperty'', ''isPrototypeOf'', ''propertyIsEnumerable'',
      ''toLocaleString'', ''toString'', ''valueOf'', ''__defineGetter__'',
      ''__defineSetter__'', ''__lookupGetter__'', ''__lookupSetter__'', ''__proto__'']"

definition readSlot :: "(string \<times> slot) list \<Rightarrow> string \<Rightarrow> slot" where
  "readSlot kvs k =
     (case map_of kvs k of
        Some x \<Rightarrow> x
      | None \<Rightarrow> if k \<in> set objectPrototype then Builtin k else Prim JUndefined)"

text \<open>
  \<^verbatim>\<open>chain.target || key\<close>, as the property name it is used for in \<^verbatim>\<open>existing[target]\<close>. An
  empty rename target is falsy. On a nested schema \<^verbatim>\<open>chain.target\<close> is its field
  \<^verbatim>\<open>target\<close>, an object: as a property name it is \<^verbatim>\<open>[object Object]\<close>, unless it is a
  nested schema with a field \<^verbatim>\<open>toString\<close>, which has no string form (\<open>None\<close>).
\<close>

fun entryTarget :: "'b schema_entry \<Rightarrow> string \<Rightarrow> string option" where
  "entryTarget (SChain c) k =
     Some (case target c of None \<Rightarrow> k | Some t \<Rightarrow> if t = [] then k else t)"
| "entryTarget (SSub s) k =
     (case map_of s ''target'' of
        None \<Rightarrow> Some k
      | Some (SChain c) \<Rightarrow> Some ''[object Object]''
      | Some (SSub s') \<Rightarrow>
          if ''toString'' \<in> fst ` set s' then None else Some ''[object Object]'')"

text \<open>
  The objects \<^verbatim>\<open>checkUpdate\<close> works on: the two it is given and the one it builds.
\<close>

record store =
  existing :: "(string \<times> slot) list"
  partialObj :: "(string \<times> slot) list"
  cleaned :: "(string \<times> slot) list"

text \<open>
  The first loop, over the properties of the partial update still to visit: the first
  key that mutates an immutable field. \<^verbatim>\<open>schema[key]\<close> is a plain read; what it finds on
  \<^verbatim>\<open>Object.prototype\<close> when the schema has no such key has neither a \<^verbatim>\<open>target\<close> nor an
  \<^verbatim>\<open>isImmutable\<close>, so such a key is passed over like one the schema lacks.
\<close>

fun mutated :: "'b schema \<Rightarrow> store \<Rightarrow> (string \<times> slot) list \<Rightarrow> exn + string option" where
  "mutated s st [] = Inr None"
| "mutated s st ((k, x) # rest) =
     (case map_of s k of
        None \<Rightarrow> mutated s st rest
      | Some entry \<Rightarrow>
          if entryIsImmutable entry
          then (case entryTarget entry k of
                  None \<Rightarrow> Inl TypeError
                | Some t \<Rightarrow>
                    if strictEq (readSlot (existing st) t) x then mutated s st rest
                    else Inr (Some k))
          else mutated s st rest)"

text \<open>The second loop, over the fields of the schema still to visit; an exception
  leaves the merged object as far as it has got.\<close>

fun mergeKeys :: "store \<Rightarrow> 'b schema \<Rightarrow> exn option \<times> store" where
  "mergeKeys st [] = (None, st)"
| "mergeKeys st ((k, entry) # rest) =
     (if k \<in> fst ` set (partialObj st)
      then mergeKeys (st\<lparr>cleaned := assignKey k (readSlot (partialObj st) k) (cleaned st)\<rparr>)
             rest
      else (case entryTarget entry k of
              None \<Rightarrow> (Some TypeError, st)
            | Some t \<Rightarrow>
                mergeKeys (st\<lparr>cleaned := assignKey k (readSlot (existing st) t) (cleaned st)\<rparr>)
                  rest))"

text \<open>
  \<^verbatim>\<open>checkUpdate\<close>, with the three objects as it leaves them. Each loop asks
  \<^verbatim>\<open>hasOwnProperty\<close> of the object it runs over, for every key: an object that has a key
  \<^verbatim>\<open>hasOwnProperty\<close> makes the first question throw.
\<close>

definition checkUpdate ::
  "'b valve \<Rightarrow> (string \<times> slot) list \<Rightarrow> (string \<times> slot) list \<Rightarrow> vcb run \<times> store" where
  "checkUpdate v ex ob =
     (let st = \<lparr>existing = ex, partialObj = ob, cleaned = []\<rparr> in
      case schema v of
        None \<Rightarrow> (Calls (VCallback (JStr ''no schema specified'') (Cleaned JUndefined)), st)
      | Some s \<Rightarrow>
          if ''hasOwnProperty'' \<in> fst ` set ob then (Throws TypeError, st)
          else (case mutated s st (enumOrder ob) of
                  Inl x \<Rightarrow> (Throws x, st)
                | Inr (Some k) \<Rightarrow>
                    (Calls (VCallback
                              (JObj [(''key'', JStr k), (''parentKeys'', JArr []),
                                     (''message'',
                                      JStr ''Attempted to mutate immutable field'')])
                              (Cleaned JUndefined)), st)
                | Inr None \<Rightarrow>
                    if ''hasOwnProperty'' \<in> fst ` set s then (Throws TypeError, st)
                    else (case mergeKeys st (enumOrder s) of
                            (Some x, st') \<Rightarrow> (Throws x, st')
                          | (None, st') \<Rightarrow>
                              (case finalValidator v of
                                 Some f \<Rightarrow> (runFinal f (Merged (cleaned st')), st')
                               | None \<Rightarrow>
                                   (Calls (VCallback JNull (Merged (cleaned st'))), st')))))"

subsection \<open>defToValve\<close>

text \<open>
  The part of a field definition and of an object definition that \<^verbatim>\<open>defToValve\<close> reads
  (\<^verbatim>\<open>struct.js\<close>, which builds them, is not among the sources): the name, the
  \<^verbatim>\<open>ignorePublic\<close> flag, the chain \<^verbatim>\<open>val\<close>, the enumeration and the source attribute, each
  of the last three possibly missing.
\<close>

record 'b field =
  fname :: string
  ignorePublic :: bool
  val :: "'b chain option"
  enumeration :: "(string \<times> jsval) list option"
  src :: "string option"

record 'b objdef =
  oname :: string
  ofields :: "'b field list"

definition fieldChain :: "'b field \<Rightarrow> 'b chain" where
  "fieldChain f =
     (let c0 = (case val f of Some c \<Rightarrow> c | None \<Rightarrow> new_Chain);
          c1 = (case enumeration f of Some m \<Rightarrow> enumerated c0 m | None \<Rightarrow> c0)
      in case src f of
           None \<Rightarrow> c1
         | Some t \<Rightarrow> if t = [] then c1 else rename c1 t)"

definition fieldsToSchema :: "'b field list \<Rightarrow> 'b schema" where
  "fieldsToSchema fs =
     foldl (\<lambda>s f. if ignorePublic f then s else assignKey (fname f) (SChain (fieldChain f)) s)
       [] fs"

definition defToValve :: "'b objdef list \<Rightarrow> (string \<times> 'b schema) list" where
  "defToValve def =
     foldl (\<lambda>validity ob. assignKey (oname ob) (fieldsToSchema (ofields ob)) validity) [] def"

text \<open>
  The keys of the cleaned object that the check of one field can write: the key of the
  field (for a null under an optional chain, for a nested schema and for a chain without
  rename target) and the rename target of its chain.
\<close>

fun fieldWrites :: "string \<times> 'b schema_entry \<Rightarrow> string set" where
  "fieldWrites (k, SChain c) = {k} \<union> (case target c of None \<Rightarrow> {} | Some t \<Rightarrow> {t})"
| "fieldWrites (k, SSub s) = {k}"

definition writes :: "'b schema \<Rightarrow> string set" where
  "writes s = (\<Union>f \<in> set s. fieldWrites f)"

section \<open>Building chains and registries\<close>



section \<open>Properties of chains\<close>

subsection \<open>Auxiliary facts\<close>

lemma andThen_Calls [simp]: "andThen (Calls c) k = k c"
  by (simp add: andThen_def)

lemma andThen_Throws [simp]: "andThen (Throws x) k = Throws x"
  by (simp add: andThen_def)








subsection \<open>The empty chain\<close>

text \<open>
  C9. A chain without steps passes every value on unchanged, whatever the baton: the
  reduction over no step calls back with a null error and the value itself. The chain
  that \<^verbatim>\<open>defToValve\<close> makes for a field that declares neither a chain nor an enumeration
  is such a chain (a source attribute only sets its rename target).
\<close>

theorem empty_chain_is_identity:
  "(validators c = [] \<longrightarrow> checkChain v c bt = Calls (Callback JNull v))
   \<and> (val f = None \<and> enumeration f = None
        \<longrightarrow> validators (fieldChain f) = []
            \<and> checkChain v (fieldChain f) bt = Calls (Callback JNull v))"
  by (auto simp: checkChain_def fieldChain_def new_Chain_def rename_def Let_def
           split: option.splits)

theorem empty_chain_is_identity_witness:
  "validators (new_Chain :: unit chain) = []
   \<and> checkChain (JNum 7) (new_Chain :: unit chain) () = Calls (Callback JNull (JNum 7))
   \<and> checkChain (JNum 7)
        (fieldChain \<lparr>fname = ''label'', ignorePublic = False, val = None, enumeration = None,
                     src = Some ''name''\<rparr> :: unit chain) ()
      = Calls (Callback JNull (JNum 7))"
  using empty_chain_is_identity [where c = "new_Chain :: unit chain" and v = "JNum 7"
          and bt = "()"
          and f = "\<lparr>fname = ''label'', ignorePublic = False, val = None, enumeration = None,
                     src = Some ''name''\<rparr>"]
  by (simp add: new_Chain_def)

subsection \<open>The step of numItems\<close>





subsection \<open>Marker steps and positions\<close>















subsection \<open>Configuration errors\<close>

lemma checkChain_single:
  "checkChain v (pushValidator new_Chain (step n f)) bt
     = andThen (reduceStep None bt v f)
         (\<lambda>c. if truthy (err c) then Calls c else Calls (Callback JNull (res c)))"
  by (simp add: checkChain_def pushValidator_def new_Chain_def step_def cong: if_cong)





section \<open>The steps of isBoolean, isArray and isHash\<close>

subsection \<open>Numbers as strings\<close>

lemma digitChar_cases: "(n::nat) < 10 \<Longrightarrow> n \<in> {0, 1, 2, 3, 4, 5, 6, 7, 8, 9}"
  by (simp, arith)

lemma digitChar_values:
  "digitChar 0 = CHR ''0''" "digitChar 1 = CHR ''1''" "digitChar 2 = CHR ''2''"
  "digitChar 3 = CHR ''3''" "digitChar 4 = CHR ''4''" "digitChar 5 = CHR ''5''"
  "digitChar 6 = CHR ''6''" "digitChar 7 = CHR ''7''" "digitChar 8 = CHR ''8''"
  "digitChar 9 = CHR ''9''" "digitChar (Suc 0) = CHR ''1''"
  by (simp_all add: digitChar_def)

lemma digitChar_isDigit: "n < 10 \<Longrightarrow> isDigit (digitChar n)"
  using digitChar_cases [of n] by (auto simp: digitChar_values isDigit_def)

lemma digitChar_zero: "n < 10 \<Longrightarrow> (digitChar n = CHR ''0'') = (n = 0)"
  using digitChar_cases [of n] by (auto simp: digitChar_values)

lemma digitChar_one: "n < 10 \<Longrightarrow> (digitChar n = CHR ''1'') = (n = 1)"
  using digitChar_cases [of n] by (auto simp: digitChar_values)

lemma showNat_nonempty: "showNat n \<noteq> []"
  by (subst showNat.simps) simp

lemma showNat_digits: "list_all isDigit (showNat n)"
proof (induction n rule: showNat.induct)
  case (1 n)
  show ?case
  proof (cases "n < 10")
    case True
    then show ?thesis by (subst showNat.simps) (simp add: digitChar_isDigit)
  next
    case False
    then show ?thesis
      using "1" by (subst showNat.simps) (simp add: digitChar_isDigit)
  qed
qed

lemma showNat_single: "(showNat n = [ch]) = (n < 10 \<and> ch = digitChar n)"
proof (cases "n < 10")
  case True
  then show ?thesis by (subst showNat.simps) auto
next
  case False
  then show ?thesis
    using showNat_nonempty [of "n div 10"] by (subst showNat.simps) auto
qed

lemma showNat_zero: "(showNat n = ''0'') = (n = 0)"
  using digitChar_zero [of n] by (auto simp: showNat_single digitChar_values)

lemma showNat_one: "(showNat n = ''1'') = (n = 1)"
  using digitChar_one [of n] by (auto simp: showNat_single digitChar_values)

lemma showInt_zero: "(showInt i = ''0'') = (i = 0)"
  by (cases "i < 0") (simp_all add: showInt_def showNat_zero)

lemma showInt_one: "(showInt i = ''1'') = (i = 1)"
  by (cases "i < 0") (auto simp: showInt_def showNat_one)

lemma lowerChar_digits:
  "lowerChar CHR ''0'' = CHR ''0''" "lowerChar CHR ''1'' = CHR ''1''"
  "lowerChar CHR ''2'' = CHR ''2''" "lowerChar CHR ''3'' = CHR ''3''"
  "lowerChar CHR ''4'' = CHR ''4''" "lowerChar CHR ''5'' = CHR ''5''"
  "lowerChar CHR ''6'' = CHR ''6''" "lowerChar CHR ''7'' = CHR ''7''"
  "lowerChar CHR ''8'' = CHR ''8''" "lowerChar CHR ''9'' = CHR ''9''"
  by (simp_all add: lowerChar_def)

lemma lowerChar_digit: "isDigit ch \<Longrightarrow> lowerChar ch = ch"
  unfolding isDigit_def by (auto simp: lowerChar_digits)

lemma lowerChar_minus: "lowerChar CHR ''-'' = CHR ''-''"
  by (simp add: lowerChar_def)

lemma showInt_hd: "\<exists>ch r. showInt i = ch # r \<and> (isDigit ch \<or> ch = CHR ''-'')"
proof (cases "i < 0")
  case True
  then show ?thesis by (simp add: showInt_def)
next
  case False
  obtain ch r where "showNat (nat i) = ch # r"
    using showNat_nonempty [of "nat i"] by (cases "showNat (nat i)") auto
  then show ?thesis
    using False showNat_digits [of "nat i"] by (simp add: showInt_def)
qed

lemma showInt_not_word:
  "map lowerChar (showInt i) \<noteq> ''false''" "map lowerChar (showInt i) \<noteq> ''true''"
proof -
  obtain ch r where h: "showInt i = ch # r" "isDigit ch \<or> ch = CHR ''-''"
    using showInt_hd by blast
  then have "lowerChar ch = ch"
    using lowerChar_digit lowerChar_minus by auto
  then show "map lowerChar (showInt i) \<noteq> ''false''" "map lowerChar (showInt i) \<noteq> ''true''"
    using h by (auto simp: isDigit_def)
qed

lemma isBoolean_number:
  "isBoolean_func self (JNum n) bt =
     (if n = 0 then pass (JBool False) else if n = 1 then pass (JBool True)
      else reject ''Not a boolean'')"
  by (simp add: isBoolean_func_def matchesFalse_def matchesTrue_def showInt_zero showInt_one
        showInt_not_word)

lemma lowerChar_letters:
  "lowerChar CHR ''t'' = CHR ''t''" "lowerChar CHR ''r'' = CHR ''r''"
  "lowerChar CHR ''u'' = CHR ''u''" "lowerChar CHR ''e'' = CHR ''e''"
  "lowerChar CHR ''f'' = CHR ''f''" "lowerChar CHR ''a'' = CHR ''a''"
  "lowerChar CHR ''l'' = CHR ''l''" "lowerChar CHR ''s'' = CHR ''s''"
  by (simp_all add: lowerChar_def)

lemma isBoolean_boolean: "isBoolean_func self (JBool b) bt = pass (JBool b)"
  by (simp add: isBoolean_func_def matchesFalse_def matchesTrue_def lowerChar_letters)

subsection \<open>isBoolean\<close>

text \<open>
  C6, as the claim states it, fails in its last part: the step is coercing. On the number
  1 it hands the boolean true to the next step, as the test of \<^verbatim>\<open>isBoolean\<close> in the
  repository expects (\<^verbatim>\<open>{a: 1}\<close> is cleaned to \<^verbatim>\<open>{a: true}\<close>).
\<close>

theorem isBoolean_coerces_counterexample:
  "checkChain (JNum 1) (isBoolean (new_Chain :: unit chain)) ()
     = Calls (Callback JNull (JBool True))
   \<and> JBool True \<noteq> JNum 1"
  unfolding isBoolean_def
  by (simp add: checkChain_single reduceStep_def isBoolean_number pass_def)

text \<open>
  C6, amended. The step of \<^verbatim>\<open>isBoolean\<close> fails with \<^verbatim>\<open>Not a boolean\<close> on null and on
  undefined. On every other value that has a string form (every value but an object with
  a property \<^verbatim>\<open>toString\<close> of its own and an array that holds one) it fails with
  \<^verbatim>\<open>Not a boolean\<close> when the string form matches neither \<^verbatim>\<open>/^0$|^false$/i\<close> nor
  \<^verbatim>\<open>/^1$|^true$/i\<close>, and otherwise hands on a boolean: false when the string form matches
  the first pattern, true when it matches only the second. So the value goes through
  unchanged exactly when it is a boolean already; of the numbers, 0 becomes false, 1
  becomes true and every other one is refused; an object without a property \<^verbatim>\<open>toString\<close>
  of its own is refused.
\<close>

theorem isBoolean_outcome:
  "((v = JNull \<or> v = JUndefined) \<longrightarrow> isBoolean_func self v bt = reject ''Not a boolean'')
   \<and> (v \<noteq> JNull \<and> v \<noteq> JUndefined \<and> plain v \<and> toString v = Some s
       \<longrightarrow> isBoolean_func self v bt
           = (if matchesFalse s then pass (JBool False)
              else if matchesTrue s then pass (JBool True)
              else reject ''Not a boolean''))
   \<and> (isBoolean_func self v bt = pass v) = (\<exists>b. v = JBool b)
   \<and> (safeInteger n
       \<longrightarrow> isBoolean_func self (JNum n) bt
           = (if n = 0 then pass (JBool False) else if n = 1 then pass (JBool True)
              else reject ''Not a boolean''))
   \<and> (''toString'' \<notin> fst ` set kvs
       \<longrightarrow> isBoolean_func self (JObj kvs) bt = reject ''Not a boolean'')
   \<and> validators (isBoolean c)
       = validators c @ [Step (Some ''isBoolean'') (validatorCount c) isBoolean_func]"
proof -
  have c1: "(v = JNull \<or> v = JUndefined) \<longrightarrow> isBoolean_func self v bt = reject ''Not a boolean''"
    by (simp add: isBoolean_func_def)
  have c3: "v \<noteq> JNull \<and> v \<noteq> JUndefined \<and> plain v \<and> toString v = Some s
       \<longrightarrow> isBoolean_func self v bt
           = (if matchesFalse s then pass (JBool False)
              else if matchesTrue s then pass (JBool True)
              else reject ''Not a boolean'')"
    by (simp add: isBoolean_func_def)
  have c6: "(isBoolean_func self v bt = pass v) = (\<exists>b. v = JBool b)"
  proof (cases v)
    case (JBool b)
    then show ?thesis by (simp add: isBoolean_boolean)
  next
    case (JArr xs)
    then show ?thesis
      by (simp add: isBoolean_func_def pass_def reject_def Let_def split: option.splits)
  next
    case (JObj kvs)
    then show ?thesis
      by (simp add: isBoolean_func_def pass_def reject_def split: option.splits)
  qed (simp_all add: isBoolean_func_def pass_def reject_def)
  have c7: "validators (isBoolean c)
       = validators c @ [Step (Some ''isBoolean'') (validatorCount c) isBoolean_func]"
    by (simp add: isBoolean_def pushValidator_def step_def)
  have c8: "safeInteger n
       \<longrightarrow> isBoolean_func self (JNum n) bt
           = (if n = 0 then pass (JBool False) else if n = 1 then pass (JBool True)
              else reject ''Not a boolean'')"
    using isBoolean_number [of self n bt] by simp
  have c9: "''toString'' \<notin> fst ` set kvs
       \<longrightarrow> isBoolean_func self (JObj kvs) bt = reject ''Not a boolean''"
    by (simp add: isBoolean_func_def matchesFalse_def matchesTrue_def lowerChar_def)
  show ?thesis
    by (rule conjI [OF c1 conjI [OF c3 conjI [OF c6 conjI [OF c8 conjI [OF c9 c7]]]]])
qed

theorem isBoolean_outcome_witness:
  "isBoolean_func None JNull () = reject ''Not a boolean''
   \<and> isBoolean_func None (JStr ''notFalse'') () = reject ''Not a boolean''
   \<and> isBoolean_func None (JStr ''FALSE'') () = pass (JBool False)
   \<and> isBoolean_func None (JNum 1) () = pass (JBool True)
   \<and> isBoolean_func None (JBool True) () = pass (JBool True)
   \<and> isBoolean_func None (JObj [(''a'', JNum 1)]) () = reject ''Not a boolean''"
proof -
  have m1: "matchesFalse ''FALSE''"
    by (simp add: matchesFalse_def lowerChar_def)
  have m2: "\<not> matchesFalse ''notFalse''" "\<not> matchesTrue ''notFalse''"
    by (simp_all add: matchesFalse_def matchesTrue_def)
  note t1 = isBoolean_outcome [where v = JNull and self = None and bt = "()"
              and c = "new_Chain :: unit chain"]
  note t2 = isBoolean_outcome [where v = "JStr ''notFalse''" and s = "''notFalse''"
              and self = None and bt = "()" and c = "new_Chain :: unit chain"]
  note t3 = isBoolean_outcome [where v = "JStr ''FALSE''" and s = "''FALSE''"
              and self = None and bt = "()" and c = "new_Chain :: unit chain"]
  note t4 = isBoolean_outcome [where v = "JBool True" and self = None and bt = "()"
              and n = 1 and kvs = "[(''a'', JNum 1)]" and c = "new_Chain :: unit chain"]
  have a1: "isBoolean_func None JNull () = reject ''Not a boolean''"
    using t1 [THEN conjunct1] by simp
  have a2: "isBoolean_func None (JStr ''notFalse'') () = reject ''Not a boolean''"
    using t2 [THEN conjunct2, THEN conjunct1] m2 by simp
  have a3: "isBoolean_func None (JStr ''FALSE'') () = pass (JBool False)"
    using t3 [THEN conjunct2, THEN conjunct1] m1 by simp
  have a4: "isBoolean_func None (JNum 1) () = pass (JBool True)"
    using t4 [THEN conjunct2, THEN conjunct2, THEN conjunct2, THEN conjunct1]
    by (simp add: safeInteger_def)
  have ex: "\<exists>b. JBool True = JBool b"
    by (rule exI [of _ True]) (rule refl)
  have a5: "isBoolean_func None (JBool True) () = pass (JBool True)"
    by (rule t4 [THEN conjunct2, THEN conjunct2, THEN conjunct1, THEN iffD2, OF ex])
  have a6: "isBoolean_func None (JObj [(''a'', JNum 1)]) () = reject ''Not a boolean''"
    using t4 [THEN conjunct2, THEN conjunct2, THEN conjunct2, THEN conjunct2, THEN conjunct1]
    by simp
  show ?thesis
    by (rule conjI [OF a1 conjI [OF a2 conjI [OF a3 conjI [OF a4 conjI [OF a5 a6]]]]])
qed


subsection \<open>isArray and isHash\<close>






lemma showNat_not_undefined: "showNat i \<noteq> ''undefined''"
proof
  assume "showNat i = ''undefined''"
  then have "list_all isDigit ''undefined''"
    using showNat_digits [of i] by simp
  then show False by (simp add: isDigit_def)
qed

lemma showNat_not_hasOwnProperty: "showNat i \<noteq> ''hasOwnProperty''"
proof
  assume "showNat i = ''hasOwnProperty''"
  then have "list_all isDigit ''hasOwnProperty''"
    using showNat_digits [of i] by simp
  then show False by (simp add: isDigit_def)
qed

lemma errMessage_string: "errMessage (JStr s) = Some (JStr s)"
proof -
  have "''undefined'' \<notin> fst ` set (zip (map showNat [0..<length s]) (map (\<lambda>c. JStr [c]) s))"
    using showNat_not_undefined by (fastforce dest!: set_zip_leftD)
  moreover have
    "''hasOwnProperty'' \<notin> fst ` set (zip (map showNat [0..<length s]) (map (\<lambda>c. JStr [c]) s))"
    using showNat_not_hasOwnProperty by (fastforce dest!: set_zip_leftD)
  ultimately show ?thesis
    by (simp add: errMessage_def hasOwnProperty_def image_Un)
qed

lemma checkChain_reject:
  "f None v bt = reject m \<Longrightarrow> m \<noteq> []
   \<Longrightarrow> checkChain v (pushValidator new_Chain (step n f)) bt = reject m"
  by (simp add: checkChain_single reduceStep_def reject_def errMessage_string)

lemma checkChain_pass:
  "f None v bt = pass w \<Longrightarrow> checkChain v (pushValidator new_Chain (step n f)) bt = pass w"
  by (simp add: checkChain_single reduceStep_def pass_def)



















end
